theory Spec2Isabelle
  imports Complex_Main "HOL-Library.Multiset" "HOL-Library.Option_ord"
begin

section \<open>The catalog of spotify\_api.py\<close>

text \<open>
  A row of \<open>self.df\<close> after \<open>_clean_data\<close>, with the columns that
  \<open>find_compatible_songs\<close> reads, as pandas 2 and NumPy 2 hold them.
  \<^item> \<open>tempo\<close>, \<open>key\<close> and \<open>playlist_genre\<close> are never missing: \<open>dropna\<close> removes
    such rows.
  \<^item> \<open>mode\<close> may be missing (\<open>None\<close> stands for NaN): \<open>_clean_data\<close> keeps such a
    row, and \<open>int(reference_song['mode'])\<close> raises on it.
  \<^item> \<open>year\<close> is \<open>.dt.year\<close> of the parsed release date. When every date of the file
    parses, the column is int32; when one does not (\<open>errors='coerce'\<close>), the column is
    float64 and holds whole numbers and NaN. A cell carries the type of its column. The
    numbers are calendar years (a timestamp lies between 1677 and 2262).
  \<^item> The seven audio features are taken as numbers, as the data set provides them.
  Floating-point columns are modelled as reals and their arithmetic is exact: the
  rounding, overflow and underflow of float64 are outside the model, and so is a missing
  audio feature.
\<close>

datatype year_val = Int32 int | Float64 "int option"

record track =
  track_id :: string
  tempo :: real
  key :: int
  mode :: "int option"
  year :: year_val
  playlist_genre :: string
  playlist_subgenre :: string
  danceability :: real
  energy :: real
  valence :: real
  acousticness :: real
  instrumentalness :: real
  speechiness :: real
  liveness :: real

text \<open>The keyword arguments of \<open>find_compatible_songs\<close>.\<close>

record config =
  bpm_tolerance :: int
  include_double_half :: bool
  match_key :: bool
  include_relative :: bool
  match_genre :: bool
  match_subgenre :: bool
  year_tolerance :: int

definition default_config :: config where
  "default_config = \<lparr> bpm_tolerance = 5, include_double_half = False, match_key = True,
     include_relative = False, match_genre = False, match_subgenre = False,
     year_tolerance = 10 \<rparr>"

text \<open>The exceptions a call can end with.\<close>

datatype py_error = KeyError | ValueError | OverflowError

text \<open>
  A Python \<open>int\<close> that meets a float64 in arithmetic is converted to a double first;
  the conversion raises \<open>OverflowError\<close> when the rounded value is beyond the largest
  double, that is from \<open>2^1024 - 2^970\<close> on.
\<close>

definition float_conv_overflows :: "int \<Rightarrow> bool" where
  "float_conv_overflows n = (\<bar>n\<bar> \<ge> 2 ^ 1024 - 2 ^ 970)"

text \<open>
  A Python \<open>int\<close> that meets an int32 scalar must fit int32, else \<open>OverflowError\<close>;
  the int32 result wraps around.
\<close>

definition int32_range :: "int \<Rightarrow> bool" where
  "int32_range n = (- (2 ^ 31) \<le> n \<and> n < 2 ^ 31)"

definition wrap32 :: "int \<Rightarrow> int" where
  "wrap32 n = (n + 2 ^ 31) mod 2 ^ 32 - 2 ^ 31"

subsection \<open>Derived columns of \<open>_clean_data\<close>\<close>

text \<open>The dictionary \<open>key_map\<close> (the same literal in \<open>_clean_data\<close> and in \<open>_filter_by_key\<close>).\<close>

definition key_map :: "int \<rightharpoonup> string" where
  "key_map = map_of [(0, ''C''), (1, ''C#''), (2, ''D''), (3, ''D#''), (4, ''E''), (5, ''F''),
     (6, ''F#''), (7, ''G''), (8, ''G#''), (9, ''A''), (10, ''A#''), (11, ''B'')]"

text \<open>\<open>df['mode'].map({0: 'Minor', 1: 'Major'})\<close>: any other value maps to NaN.\<close>

definition mode_name :: "int \<rightharpoonup> string" where
  "mode_name m = (if m = 0 then Some ''Minor'' else if m = 1 then Some ''Major'' else None)"

text \<open>\<open>key_name + ' ' + mode_name\<close>; a missing part makes the whole label missing.\<close>

definition full_key_of :: "int \<times> int \<Rightarrow> string option" where
  "full_key_of km = (case (key_map (fst km), mode_name (snd km)) of
      (Some k, Some m) \<Rightarrow> Some (k @ '' '' @ m)
    | _ \<Rightarrow> None)"

definition full_key :: "track \<Rightarrow> string option" where
  "full_key t = (case mode t of None \<Rightarrow> None | Some m \<Rightarrow> full_key_of (key t, m))"

subsection \<open>\<open>_filter_by_bpm\<close>\<close>

definition bpm_min :: "track \<Rightarrow> int \<Rightarrow> real" where
  "bpm_min reference_song tol = tempo reference_song - real_of_int tol"

definition bpm_max :: "track \<Rightarrow> int \<Rightarrow> real" where
  "bpm_max reference_song tol = tempo reference_song + real_of_int tol"

definition double_min :: "track \<Rightarrow> int \<Rightarrow> real" where
  "double_min reference_song tol = 2 * bpm_min reference_song tol"

definition double_max :: "track \<Rightarrow> int \<Rightarrow> real" where
  "double_max reference_song tol = 2 * bpm_max reference_song tol"

definition half_min :: "track \<Rightarrow> int \<Rightarrow> real" where
  "half_min reference_song tol = bpm_min reference_song tol / 2"

definition half_max :: "track \<Rightarrow> int \<Rightarrow> real" where
  "half_max reference_song tol = bpm_max reference_song tol / 2"

text \<open>The three conjunctions of the boolean mask, one per band.\<close>

definition in_plain_band :: "track \<Rightarrow> int \<Rightarrow> real \<Rightarrow> bool" where
  "in_plain_band reference_song tol x =
     (x \<ge> bpm_min reference_song tol \<and> x \<le> bpm_max reference_song tol)"

definition in_double_band :: "track \<Rightarrow> int \<Rightarrow> real \<Rightarrow> bool" where
  "in_double_band reference_song tol x =
     (x \<ge> double_min reference_song tol \<and> x \<le> double_max reference_song tol)"

definition in_half_band :: "track \<Rightarrow> int \<Rightarrow> real \<Rightarrow> bool" where
  "in_half_band reference_song tol x =
     (x \<ge> half_min reference_song tol \<and> x \<le> half_max reference_song tol)"

text \<open>
  Line 114 subtracts the tolerance, a Python \<open>int\<close>, from the reference tempo, a
  float64: a tolerance beyond the doubles raises before any row is filtered.
\<close>

definition filter_by_bpm ::
  "track list \<Rightarrow> track \<Rightarrow> int \<Rightarrow> bool \<Rightarrow> py_error + track list" where
  "filter_by_bpm df reference_song tol incl_double_half =
     (if float_conv_overflows tol then Inl OverflowError
      else if incl_double_half then
        Inr (filter (\<lambda>t. in_plain_band reference_song tol (tempo t)
                  \<or> in_double_band reference_song tol (tempo t)
                  \<or> in_half_band reference_song tol (tempo t)) df)
      else Inr (filter (\<lambda>t. in_plain_band reference_song tol (tempo t)) df))"

subsection \<open>\<open>_filter_by_key\<close>\<close>

text \<open>A dictionary subscript \<open>d[k]\<close> raises \<open>KeyError\<close> on a missing key.\<close>

definition subscript :: "('k \<rightharpoonup> 'v) \<Rightarrow> 'k \<Rightarrow> py_error + 'v" where
  "subscript d k = (case d k of None \<Rightarrow> Inl KeyError | Some v \<Rightarrow> Inr v)"

text \<open>\<open>int(x)\<close> of a cell: a missing value raises \<open>ValueError\<close>.\<close>

definition to_int :: "int option \<Rightarrow> py_error + int" where
  "to_int x = (case x of None \<Rightarrow> Inl ValueError | Some n \<Rightarrow> Inr n)"

text \<open>
  The list \<open>allowed_keys\<close>: the reference's own label and, with \<open>include_relative\<close>,
  the label of the relative key, built as in the source from the name of the shifted
  pitch class and a literal mode word. The key is never missing, so \<open>int\<close> of it is the
  key; \<open>int\<close> of the mode is \<open>to_int\<close>.
\<close>

definition allowed_keys :: "track \<Rightarrow> bool \<Rightarrow> py_error + string option list" where
  "allowed_keys reference_song incl_relative =
     (if incl_relative then
        (let ref_key_num = key reference_song in
         case to_int (mode reference_song) of
           Inl e \<Rightarrow> Inl e
         | Inr ref_mode \<Rightarrow>
             if ref_mode = 1 then
               (case subscript key_map ((ref_key_num + 9) mod 12) of
                  Inl e \<Rightarrow> Inl e
                | Inr relative_key_name \<Rightarrow>
                    Inr [full_key reference_song, Some (relative_key_name @ '' Minor'')])
             else
               (case subscript key_map ((ref_key_num + 3) mod 12) of
                  Inl e \<Rightarrow> Inl e
                | Inr relative_key_name \<Rightarrow>
                    Inr [full_key reference_song, Some (relative_key_name @ '' Major'')]))
      else Inr [full_key reference_song])"

text \<open>\<open>df['full_key'].isin(allowed_keys)\<close>; \<open>isin\<close> matches a missing label with a missing label.\<close>

definition filter_by_key ::
  "track list \<Rightarrow> track \<Rightarrow> bool \<Rightarrow> bool \<Rightarrow> py_error + track list" where
  "filter_by_key df reference_song mkey incl_relative =
     (if \<not> mkey then Inr df
      else case allowed_keys reference_song incl_relative of
             Inl e \<Rightarrow> Inl e
           | Inr allowed \<Rightarrow> Inr (filter (\<lambda>t. full_key t \<in> set allowed) df))"

text \<open>
  The relative key as a (pitch class, mode) pair: the pitch class is the one
  \<open>_filter_by_key\<close> computes, the mode is the number whose \<open>mode_name\<close> is the word the
  source appends (0 for \<open>Minor\<close>, 1 for \<open>Major\<close>).
\<close>

definition relative_key :: "int \<times> int \<Rightarrow> int \<times> int" where
  "relative_key km = (if snd km = 1 then ((fst km + 9) mod 12, 0)
                      else ((fst km + 3) mod 12, 1))"

subsection \<open>\<open>_calculate_similarity\<close>\<close>

text \<open>Present values of a column: pandas reductions skip NaN.\<close>

definition present :: "'a option list \<Rightarrow> 'a list" where
  "present xs = List.map_filter id xs"

text \<open>\<open>Series.min()\<close> and \<open>Series.max()\<close>: NaN when no value is present.\<close>

definition series_min :: "real option list \<Rightarrow> real option" where
  "series_min xs = (case present xs of [] \<Rightarrow> None | y # ys \<Rightarrow> Some (fold min ys y))"

definition series_max :: "real option list \<Rightarrow> real option" where
  "series_max xs = (case present xs of [] \<Rightarrow> None | y # ys \<Rightarrow> Some (fold max ys y))"

text \<open>Arithmetic and comparison with NaN: NaN propagates, and \<open>NaN > 0\<close> is false.\<close>

definition nan_sub :: "real option \<Rightarrow> real option \<Rightarrow> real option" where
  "nan_sub a b = (case (a, b) of (Some x, Some y) \<Rightarrow> Some (x - y) | _ \<Rightarrow> None)"

definition gt0 :: "real option \<Rightarrow> bool" where
  "gt0 a = (case a of Some x \<Rightarrow> x > 0 | None \<Rightarrow> False)"

text \<open>The number in a year cell, if any; \<open>year_col\<close> is the cell in the arithmetic of
  \<open>_calculate_similarity\<close>, which divides and so computes in float64.\<close>

definition year_value :: "year_val \<Rightarrow> int option" where
  "year_value v = (case v of Int32 y \<Rightarrow> Some y | Float64 y \<Rightarrow> y)"

definition year_col :: "track \<Rightarrow> real option" where
  "year_col t = map_option real_of_int (year_value (year t))"

definition year_min :: "track list \<Rightarrow> real option" where
  "year_min df = series_min (map year_col df)"

definition year_max :: "track list \<Rightarrow> real option" where
  "year_max df = series_max (map year_col df)"

definition year_range :: "track list \<Rightarrow> real option" where
  "year_range df = nan_sub (year_max df) (year_min df)"

text \<open>
  One function for \<open>year_normalized\<close> (a candidate row) and \<open>ref_year_normalized\<close>:
  the source applies the same expression to both, and the constant 0 otherwise.
\<close>

definition year_normalized :: "track list \<Rightarrow> track \<Rightarrow> real option" where
  "year_normalized df t =
     (if gt0 (year_range df) then
        (case (year_col t, year_min df, year_range df) of
           (Some y, Some lo, Some r) \<Rightarrow> Some ((y - lo) / r)
         | _ \<Rightarrow> None)
      else Some 0)"

definition ref_year_normalized :: "track list \<Rightarrow> track \<Rightarrow> real option" where
  "ref_year_normalized df reference_song = year_normalized df reference_song"

text \<open>The list \<open>audio_features\<close>, as column selectors.\<close>

definition audio_features :: "(track \<Rightarrow> real) list" where
  "audio_features = [danceability, energy, valence, acousticness,
                     instrumentalness, speechiness, liveness]"

definition sum_squared_diffs :: "track list \<Rightarrow> track \<Rightarrow> track \<Rightarrow> real option" where
  "sum_squared_diffs df reference_song t =
     (case nan_sub (year_normalized df t) (ref_year_normalized df reference_song) of
        None \<Rightarrow> None
      | Some yd \<Rightarrow>
          Some (sum_list (map (\<lambda>feature. (feature t - feature reference_song)\<^sup>2) audio_features)
                + yd\<^sup>2))"

definition distance :: "track list \<Rightarrow> track \<Rightarrow> track \<Rightarrow> real option" where
  "distance df reference_song t = map_option sqrt (sum_squared_diffs df reference_song t)"

definition max_distance :: "track list \<Rightarrow> track \<Rightarrow> real option" where
  "max_distance df reference_song = series_max (map (distance df reference_song) df)"

definition similarity :: "track list \<Rightarrow> track \<Rightarrow> track \<Rightarrow> real option" where
  "similarity df reference_song t =
     (if gt0 (max_distance df reference_song) then
        (case (distance df reference_song t, max_distance df reference_song) of
           (Some d, Some m) \<Rightarrow> Some (1 - d / m)
         | _ \<Rightarrow> None)
      else Some 1)"

text \<open>The returned frame: each row with its \<open>similarity\<close> column.\<close>

type_synonym scored = "track \<times> real option"

definition calculate_similarity :: "track list \<Rightarrow> track \<Rightarrow> scored list" where
  "calculate_similarity df reference_song = map (\<lambda>t. (t, similarity df reference_song t)) df"

subsection \<open>\<open>find_compatible_songs\<close>\<close>

text \<open>
  Lines 269 and 270: the two bounds of the year filter, computed on the reference's year
  cell. On an int32 cell the tolerance must fit int32 and the results wrap around. On a
  float64 cell the tolerance is converted to a double; the results are NaN (\<open>None\<close>)
  when the year is missing. For calendar years and a tolerance the conversion accepts,
  comparing a year with the rounded float64 bounds gives what comparing with the exact
  bounds gives, so the float64 bounds are kept exact.
\<close>

definition year_bounds :: "track \<Rightarrow> int \<Rightarrow> py_error + (int \<times> int) option" where
  "year_bounds reference_song tol =
     (case year reference_song of
        Int32 y \<Rightarrow>
          if int32_range tol then Inr (Some (wrap32 (y - tol), wrap32 (y + tol)))
          else Inl OverflowError
      | Float64 v \<Rightarrow>
          if float_conv_overflows tol then Inl OverflowError
          else (case v of None \<Rightarrow> Inr None | Some y \<Rightarrow> Inr (Some (y - tol, y + tol))))"

text \<open>Line 271, the mask: a comparison with a missing year or a NaN bound is false.\<close>

definition year_mask :: "(int \<times> int) option \<Rightarrow> track \<Rightarrow> bool" where
  "year_mask bounds t =
     (case (bounds, year_value (year t)) of
        (Some (lo, hi), Some y) \<Rightarrow> y \<ge> lo \<and> y \<le> hi
      | _ \<Rightarrow> False)"

text \<open>Lines 268 to 271.\<close>

definition year_filter :: "track list \<Rightarrow> track \<Rightarrow> int \<Rightarrow> py_error + track list" where
  "year_filter df reference_song tol =
     (case year_bounds reference_song tol of
        Inl e \<Rightarrow> Inl e
      | Inr bounds \<Rightarrow> Inr (filter (year_mask bounds) df))"

text \<open>A row satisfies the mask that the call computes (false when line 269 raises).\<close>

definition year_in_range :: "track \<Rightarrow> int \<Rightarrow> track \<Rightarrow> bool" where
  "year_in_range reference_song tol t =
     (case year_bounds reference_song tol of
        Inl e \<Rightarrow> False
      | Inr bounds \<Rightarrow> year_mask bounds t)"

text \<open>
  \<open>df.sort_values('similarity', ascending=False)\<close> is called with the default
  \<open>kind='quicksort'\<close>, for which the library promises a descending rearrangement of the
  rows (NaN last) and no order among rows of equal value: which rearrangement a run
  returns is decided by the sort routine of the installed numpy, not by this source. The
  sort is therefore a relation between the frame and each frame the contract admits,
  and a statement proved of every admitted frame holds of the one a run returns. In the
  order on \<open>option\<close>, \<open>None\<close> is least, which puts NaN last here.
\<close>

definition sort_values_desc :: "scored list \<Rightarrow> scored list \<Rightarrow> bool" where
  "sort_values_desc df out =
     (mset out = mset df \<and> sorted_wrt (\<lambda>a b. snd a \<ge> snd b) out)"

text \<open>What a call does: return \<open>None\<close>, return a frame, or raise.\<close>

datatype outcome = ReturnNone | Return "scored list" | Raise py_error

text \<open>Lines 253 to 274: the candidates with their scores, before sorting.\<close>

definition scored_candidates :: "track list \<Rightarrow> string \<Rightarrow> track \<Rightarrow> config \<Rightarrow> py_error + scored list"
  where
  "scored_candidates cat reference_track_id reference_song cfg =
     (let df = filter (\<lambda>t. track_id t \<noteq> reference_track_id) cat
      in case filter_by_bpm df reference_song (bpm_tolerance cfg) (include_double_half cfg) of
           Inl e \<Rightarrow> Inl e
         | Inr df \<Rightarrow>
      (case filter_by_key df reference_song (match_key cfg) (include_relative cfg) of
           Inl e \<Rightarrow> Inl e
         | Inr df \<Rightarrow>
            (let df = (if match_genre cfg
                       then filter (\<lambda>t. playlist_genre t = playlist_genre reference_song) df
                       else df);
                 df = (if match_subgenre cfg
                       then filter (\<lambda>t. playlist_subgenre t = playlist_subgenre reference_song) df
                       else df)
             in case year_filter df reference_song (year_tolerance cfg) of
                  Inl e \<Rightarrow> Inl e
                | Inr df \<Rightarrow> Inr (calculate_similarity df reference_song))))"

text \<open>
  \<open>find_compatible_songs cat rid cfg out\<close>: the call on catalog \<open>cat\<close> may end with
  \<open>out\<close>. Everything but the order of tied rows is determined.
\<close>

definition find_compatible_songs :: "track list \<Rightarrow> string \<Rightarrow> config \<Rightarrow> outcome \<Rightarrow> bool" where
  "find_compatible_songs cat reference_track_id cfg out =
     (case List.find (\<lambda>t. track_id t = reference_track_id) cat of
        None \<Rightarrow> out = ReturnNone
      | Some reference_song \<Rightarrow>
          (case scored_candidates cat reference_track_id reference_song cfg of
             Inl e \<Rightarrow> out = Raise e
           | Inr df \<Rightarrow> (case out of Return res \<Rightarrow> sort_values_desc df res | _ \<Rightarrow> False)))"

subsection \<open>The filters as one predicate\<close>

text \<open>
  The masks of the pipeline, per candidate row. They are derived notions, used to state
  what the pipeline keeps; \<open>scored_candidates_eq\<close> below proves that the code computes
  exactly the rows they select.
\<close>

definition tempo_ok :: "track \<Rightarrow> config \<Rightarrow> track \<Rightarrow> bool" where
  "tempo_ok r cfg t = (in_plain_band r (bpm_tolerance cfg) (tempo t)
      \<or> (include_double_half cfg \<and> (in_double_band r (bpm_tolerance cfg) (tempo t)
           \<or> in_half_band r (bpm_tolerance cfg) (tempo t))))"

definition key_ok :: "track \<Rightarrow> config \<Rightarrow> track \<Rightarrow> bool" where
  "key_ok r cfg t = (\<not> match_key cfg \<or> full_key t = full_key r
      \<or> (include_relative cfg \<and>
          (case mode r of None \<Rightarrow> False
           | Some m \<Rightarrow> full_key t = full_key_of (relative_key (key r, m)))))"

definition candidates :: "track list \<Rightarrow> string \<Rightarrow> track \<Rightarrow> config \<Rightarrow> track list" where
  "candidates cat rid r cfg = filter (\<lambda>t. track_id t \<noteq> rid \<and> tempo_ok r cfg t \<and> key_ok r cfg t
      \<and> (\<not> match_genre cfg \<or> playlist_genre t = playlist_genre r)
      \<and> (\<not> match_subgenre cfg \<or> playlist_subgenre t = playlist_subgenre r)
      \<and> year_in_range r (year_tolerance cfg) t) cat"

text \<open>
  The exception a call on reference \<open>r\<close> ends with, if any, in the order of the lines
  that raise: 114 (tempo tolerance), 158 (missing mode), 269 (year tolerance).
\<close>

definition raises :: "track \<Rightarrow> config \<Rightarrow> py_error option" where
  "raises r cfg =
     (if float_conv_overflows (bpm_tolerance cfg) then Some OverflowError
      else if match_key cfg \<and> include_relative cfg \<and> mode r = None then Some ValueError
      else case year_bounds r (year_tolerance cfg) of
             Inl e \<Rightarrow> Some e
           | Inr bounds \<Rightarrow> None)"

text \<open>Two rows agree on the seven audio features.\<close>

definition same_features :: "track \<Rightarrow> track \<Rightarrow> bool" where
  "same_features t r = (danceability t = danceability r \<and> energy t = energy r \<and>
     valence t = valence r \<and> acousticness t = acousticness r \<and>
     instrumentalness t = instrumentalness r \<and> speechiness t = speechiness r \<and>
     liveness t = liveness r)"

subsection \<open>Example rows\<close>

definition ex_ref :: track where
  "ex_ref = \<lparr> track_id = ''ref'', tempo = 120, key = 0, mode = Some 1, year = Int32 2000,
     playlist_genre = ''pop'', playlist_subgenre = ''dance pop'', danceability = 0, energy = 0,
     valence = 0, acousticness = 0, instrumentalness = 0, speechiness = 0, liveness = 0 \<rparr>"

definition ex_track :: "string \<Rightarrow> real \<Rightarrow> int \<Rightarrow> track" where
  "ex_track tid bpm yr = ex_ref\<lparr> track_id := tid, tempo := bpm, year := Int32 yr \<rparr>"

text \<open>A row that differs from the reference in key, genre and subgenre.\<close>

definition ex_other :: track where
  "ex_other = ex_ref\<lparr> track_id := ''other'', key := 5, playlist_genre := ''rock'',
     playlist_subgenre := ''hard rock'' \<rparr>"

text \<open>The defaults, with the key filter switched off.\<close>

definition ex_cfg :: config where
  "ex_cfg = default_config\<lparr> match_key := False \<rparr>"

text \<open>Small catalogs, the reference row first.\<close>

definition ex_rank_cat :: "track list" where
  "ex_rank_cat = [ex_ref, ex_track ''far'' 120 2010, ex_track ''near'' 120 2000]"


definition ex_year_cat :: "track list" where
  "ex_year_cat = [ex_ref, ex_track ''old'' 120 1989, ex_track ''edge'' 120 1990]"

definition ex_genre_cat :: "track list" where
  "ex_genre_cat = [ex_ref, ex_other, ex_track ''pop'' 120 2000]"




text \<open>The years a parsed release date can have.\<close>

definition calendar_year :: "int \<Rightarrow> bool" where
  "calendar_year y = (1677 \<le> y \<and> y \<le> 2262)"

section \<open>Properties\<close>

subsection \<open>The key filter raises only on a missing mode\<close>

lemma key_map_mod12: "\<exists>nm. key_map (k mod 12) = Some nm"
proof -
  have "0 \<le> k mod 12" "k mod 12 < 12" by simp_all
  then have "k mod 12 = 0 \<or> k mod 12 = 1 \<or> k mod 12 = 2 \<or> k mod 12 = 3 \<or> k mod 12 = 4
     \<or> k mod 12 = 5 \<or> k mod 12 = 6 \<or> k mod 12 = 7 \<or> k mod 12 = 8 \<or> k mod 12 = 9
     \<or> k mod 12 = 10 \<or> k mod 12 = 11" by presburger
  then show ?thesis unfolding key_map_def by auto
qed

lemma allowed_keys_plain: "allowed_keys r False = Inr [full_key r]"
  by (simp add: allowed_keys_def)

lemma allowed_keys_relative:
  "mode r = Some m \<Longrightarrow>
     allowed_keys r True = Inr [full_key r, full_key_of (relative_key (key r, m))]"
  using key_map_mod12[of "key r + 9"] key_map_mod12[of "key r + 3"]
  by (auto simp: allowed_keys_def to_int_def subscript_def relative_key_def full_key_of_def
      mode_name_def Let_def)

lemma allowed_keys_missing_mode: "mode r = None \<Longrightarrow> allowed_keys r True = Inl ValueError"
  by (simp add: allowed_keys_def to_int_def)

subsection \<open>The pipeline in closed form\<close>

lemma filter_by_bpm_eq:
  "filter_by_bpm df r (bpm_tolerance cfg) (include_double_half cfg) =
     (if float_conv_overflows (bpm_tolerance cfg) then Inl OverflowError
      else Inr (filter (tempo_ok r cfg) df))"
  by (auto simp: filter_by_bpm_def tempo_ok_def intro: filter_cong)

lemma filter_by_key_eq:
  "filter_by_key df r (match_key cfg) (include_relative cfg) =
     (if match_key cfg \<and> include_relative cfg \<and> mode r = None then Inl ValueError
      else Inr (filter (key_ok r cfg) df))"
proof (cases "mode r")
  case None
  then show ?thesis
    by (cases "include_relative cfg")
       (auto simp: filter_by_key_def allowed_keys_plain allowed_keys_missing_mode key_ok_def
          intro: filter_cong)
next
  case (Some m)
  then show ?thesis
    by (cases "include_relative cfg")
       (auto simp: filter_by_key_def allowed_keys_plain allowed_keys_relative key_ok_def
          intro: filter_cong)
qed

lemma year_filter_eq:
  "year_filter df r tol =
     (case year_bounds r tol of
        Inl e \<Rightarrow> Inl e
      | Inr bounds \<Rightarrow> Inr (filter (year_in_range r tol) df))"
  by (auto simp: year_filter_def year_in_range_def split: sum.splits intro: filter_cong)

lemma filter_conj_cong:
  "(\<And>x. x \<in> set xs \<Longrightarrow> P x = Q x) \<Longrightarrow> f (filter P xs) = f (filter Q xs)"
  by (metis filter_cong)

lemma scored_candidates_eq:
  "scored_candidates cat rid r cfg =
     (case raises r cfg of
        Some e \<Rightarrow> Inl e
      | None \<Rightarrow> Inr (calculate_similarity (candidates cat rid r cfg) r))"
proof (cases "raises r cfg")
  case (Some e)
  then show ?thesis
    unfolding scored_candidates_def Let_def filter_by_bpm_eq filter_by_key_eq year_filter_eq
      raises_def
    by (auto split: if_splits sum.splits)
next
  case None
  then have a: "\<not> float_conv_overflows (bpm_tolerance cfg)"
      "\<not> (match_key cfg \<and> include_relative cfg \<and> mode r = None)"
      "\<exists>b. year_bounds r (year_tolerance cfg) = Inr b"
    by (auto simp: raises_def split: if_splits sum.splits)
  then obtain b where b: "year_bounds r (year_tolerance cfg) = Inr b" by blast
  show ?thesis
    unfolding scored_candidates_def Let_def filter_by_bpm_eq filter_by_key_eq year_filter_eq
      candidates_def None
    using a(1,2) b
    by (cases "match_genre cfg"; cases "match_subgenre cfg"; simp; rule filter_conj_cong; blast)
qed

lemma candidates_set:
  "t \<in> set (candidates cat rid r cfg) \<longleftrightarrow>
     t \<in> set cat \<and> track_id t \<noteq> rid \<and> tempo_ok r cfg t \<and> key_ok r cfg t
      \<and> (\<not> match_genre cfg \<or> playlist_genre t = playlist_genre r)
      \<and> (\<not> match_subgenre cfg \<or> playlist_subgenre t = playlist_subgenre r)
      \<and> year_in_range r (year_tolerance cfg) t"
  by (auto simp: candidates_def)

lemma find_compatible_songs_Return:
  "find_compatible_songs cat rid cfg (Return res) \<longleftrightarrow>
     (\<exists>r. List.find (\<lambda>t. track_id t = rid) cat = Some r \<and> raises r cfg = None \<and>
          sort_values_desc (calculate_similarity (candidates cat rid r cfg) r) res)"
  by (auto simp: find_compatible_songs_def scored_candidates_eq split: option.splits)



lemma sort_values_desc_set: "sort_values_desc df res \<Longrightarrow> set res = set df"
  by (auto simp: sort_values_desc_def dest: mset_eq_setD)

lemma fst_set_calculate_similarity: "fst ` set (calculate_similarity df r) = set df"
  by (force simp: calculate_similarity_def)


lemma result_tracks:
  assumes "find_compatible_songs cat rid cfg (Return res)"
  shows "\<exists>r. List.find (\<lambda>t. track_id t = rid) cat = Some r \<and> raises r cfg = None \<and>
             set res = set (calculate_similarity (candidates cat rid r cfg) r) \<and>
             fst ` set res = set (candidates cat rid r cfg)"
proof -
  from assms obtain r where r: "List.find (\<lambda>t. track_id t = rid) cat = Some r"
      "raises r cfg = None"
      "sort_values_desc (calculate_similarity (candidates cat rid r cfg) r) res"
    by (auto simp: find_compatible_songs_Return)
  from r(3) have "set res = set (calculate_similarity (candidates cat rid r cfg) r)"
    by (rule sort_values_desc_set)
  with r(1,2) show ?thesis by (auto simp: fst_set_calculate_similarity)
qed



lemma candidates_mono:
  assumes "\<And>t. tempo_ok r cfg1 t \<Longrightarrow> tempo_ok r cfg2 t"
      "\<And>t. key_ok r cfg1 t \<Longrightarrow> key_ok r cfg2 t"
      "match_genre cfg2 \<Longrightarrow> match_genre cfg1" "match_subgenre cfg2 \<Longrightarrow> match_subgenre cfg1"
      "year_tolerance cfg1 = year_tolerance cfg2"
  shows "set (candidates cat rid r cfg1) \<subseteq> set (candidates cat rid r cfg2)"
  using assms by (auto simp: candidates_set)

lemma result_ids_mono:
  assumes "find_compatible_songs cat rid cfg1 (Return res1)"
      "find_compatible_songs cat rid cfg2 (Return res2)"
      "\<And>r. set (candidates cat rid r cfg1) \<subseteq> set (candidates cat rid r cfg2)"
  shows "(track_id \<circ> fst) ` set res1 \<subseteq> (track_id \<circ> fst) ` set res2"
proof -
  from result_tracks[OF assms(1)] result_tracks[OF assms(2)] obtain r where
    "fst ` set res1 = set (candidates cat rid r cfg1)"
    "fst ` set res2 = set (candidates cat rid r cfg2)" by auto
  with assms(3)[of r] have "fst ` set res1 \<subseteq> fst ` set res2" by simp
  then have "track_id ` fst ` set res1 \<subseteq> track_id ` fst ` set res2" by (rule image_mono)
  then show ?thesis by (simp only: image_comp)
qed

lemma find_compatible_songs_eval:
  assumes "List.find (\<lambda>t. track_id t = rid) cat = Some r" "raises r cfg = None"
      "candidates cat rid r cfg = df" "calculate_similarity df r = sc" "sort_values_desc sc res"
  shows "find_compatible_songs cat rid cfg (Return res)"
  using assms by (simp add: find_compatible_songs_Return)

subsection \<open>Degenerate normalisation\<close>

lemma set_present: "set (present xs) = {x. Some x \<in> set xs}"
  by (induction xs) (auto simp: present_def List.map_filter_def)

lemma year_normalized_degenerate:
  "year_min df = year_max df \<Longrightarrow> year_normalized df t = Some 0"
  by (cases "year_max df") (simp_all add: year_normalized_def year_range_def nan_sub_def gt0_def)

lemma similarity_degenerate:
  "\<not> gt0 (max_distance df r) \<Longrightarrow> calculate_similarity df r = map (\<lambda>t. (t, Some 1)) df"
  by (simp add: calculate_similarity_def similarity_def)

lemma distance_identical:
  assumes "year_min df = year_max df" "same_features t r"
  shows "distance df r t = Some 0"
  using assms(2) year_normalized_degenerate[OF assms(1)]
  by (simp add: distance_def sum_squared_diffs_def ref_year_normalized_def nan_sub_def
      audio_features_def same_features_def)

lemma fold_max_in:
  fixes y :: real
  shows "fold max ys y \<in> set (y # ys)"
proof -
  have "Max (set (y # ys)) \<in> set (y # ys)" by (intro Max_in) auto
  then show ?thesis by (simp only: Max.set_eq_fold)
qed

lemma series_max_in: "series_max xs = Some m \<Longrightarrow> Some m \<in> set xs"
proof -
  assume a: "series_max xs = Some m"
  then obtain y ys where p: "present xs = y # ys" "m = fold max ys y"
    by (auto simp: series_max_def split: list.splits)
  have "m \<in> set (present xs)" unfolding p by (rule fold_max_in)
  then show ?thesis by (simp add: set_present)
qed

lemma max_distance_zero:
  assumes "\<forall>t\<in>set df. distance df r t = Some 0"
  shows "\<not> gt0 (max_distance df r)"
proof (cases "max_distance df r")
  case None
  then show ?thesis by (simp add: gt0_def)
next
  case (Some m)
  then have "Some m \<in> set (map (distance df r) df)"
    unfolding max_distance_def by (rule series_max_in)
  with assms have "m = 0" by auto
  with Some show ?thesis by (simp add: gt0_def)
qed

lemma all_identical_similarity:
  assumes "year_min df = year_max df" "\<forall>t\<in>set df. same_features t r"
  shows "calculate_similarity df r = map (\<lambda>t. (t, Some 1)) df"
proof -
  from assms have "\<forall>t\<in>set df. distance df r t = Some 0"
    by (auto intro: distance_identical)
  then show ?thesis by (intro similarity_degenerate max_distance_zero)
qed

lemma sole_year_min_max: "year_min [t] = year_max [t]"
  by (simp add: year_min_def year_max_def series_min_def series_max_def present_def
      List.map_filter_def)

subsection \<open>Year bounds without overflow\<close>

lemma wrap32_id: "int32_range n \<Longrightarrow> wrap32 n = n"
  by (simp add: int32_range_def wrap32_def)

lemma small_tolerance_converts: "\<bar>n\<bar> < 2 ^ 31 \<Longrightarrow> \<not> float_conv_overflows n"
  by (simp add: float_conv_overflows_def)

lemma year_bounds_exact:
  assumes "year_value (year r) = Some y" "- (2 ^ 31) \<le> y - tol" "y + tol < 2 ^ 31" "0 \<le> tol"
  shows "year_bounds r tol = Inr (Some (y - tol, y + tol))"
proof (cases "year r")
  case (Int32 z)
  with assms(1) have z: "z = y" by (simp add: year_value_def)
  from assms(2-4) have "int32_range tol" "int32_range (y - tol)" "int32_range (y + tol)"
    by (simp_all add: int32_range_def)
  with Int32 z show ?thesis by (simp add: year_bounds_def wrap32_id)
next
  case (Float64 v)
  with assms(1) have v: "v = Some y" by (simp add: year_value_def)
  from assms(2-4) have "\<bar>tol\<bar> < 2 ^ 31" by simp
  then have "\<not> float_conv_overflows tol" by (rule small_tolerance_converts)
  with Float64 v show ?thesis by (simp add: year_bounds_def)
qed

lemma year_in_range_exact:
  assumes "year_value (year r) = Some y" "- (2 ^ 31) \<le> y - tol" "y + tol < 2 ^ 31" "0 \<le> tol"
    "year_value (year t) = Some c"
  shows "year_in_range r tol t \<longleftrightarrow> y - tol \<le> c \<and> c \<le> y + tol"
  using year_bounds_exact[OF assms(1-4)] assms(5)
  by (simp add: year_in_range_def year_mask_def)

subsection \<open>The example catalogs, evaluated\<close>

lemma ex_track_fields:
  "track_id (ex_track i b y) = i" "tempo (ex_track i b y) = b" "year (ex_track i b y) = Int32 y"
  "key (ex_track i b y) = 0" "mode (ex_track i b y) = Some 1"
  "playlist_genre (ex_track i b y) = ''pop''" "playlist_subgenre (ex_track i b y) = ''dance pop''"
  "danceability (ex_track i b y) = 0" "energy (ex_track i b y) = 0" "valence (ex_track i b y) = 0"
  "acousticness (ex_track i b y) = 0" "instrumentalness (ex_track i b y) = 0"
  "speechiness (ex_track i b y) = 0" "liveness (ex_track i b y) = 0"
  by (simp_all add: ex_track_def ex_ref_def)

lemma ex_ref_fields:
  "track_id ex_ref = ''ref''" "tempo ex_ref = 120" "year ex_ref = Int32 2000"
  "key ex_ref = 0" "mode ex_ref = Some 1"
  "playlist_genre ex_ref = ''pop''" "playlist_subgenre ex_ref = ''dance pop''"
  "danceability ex_ref = 0" "energy ex_ref = 0" "valence ex_ref = 0"
  "acousticness ex_ref = 0" "instrumentalness ex_ref = 0"
  "speechiness ex_ref = 0" "liveness ex_ref = 0"
  by (simp_all add: ex_ref_def)

lemma ex_other_fields:
  "track_id ex_other = ''other''" "tempo ex_other = 120" "year ex_other = Int32 2000"
  "key ex_other = 5" "mode ex_other = Some 1"
  "playlist_genre ex_other = ''rock''" "playlist_subgenre ex_other = ''hard rock''"
  "danceability ex_other = 0" "energy ex_other = 0" "valence ex_other = 0"
  "acousticness ex_other = 0" "instrumentalness ex_other = 0"
  "speechiness ex_other = 0" "liveness ex_other = 0"
  by (simp_all add: ex_other_def ex_ref_def)

lemma ex_track_eq: "ex_track i b y = ex_track i' b' y' \<longleftrightarrow> i = i' \<and> b = b' \<and> y = y'"
  by (auto simp: ex_track_def ex_ref_def)

lemma ex_default_raises: "raises ex_ref default_config = None"
  by (simp add: raises_def default_config_def float_conv_overflows_def year_bounds_def
      int32_range_def ex_ref_fields)

lemma ex_year_in_range:
  "year_in_range ex_ref 10 (ex_track i b y) \<longleftrightarrow> 1990 \<le> y \<and> y \<le> 2010"
  using year_in_range_exact[of ex_ref 2000 10 "ex_track i b y" y]
  by (simp add: year_value_def ex_ref_fields ex_track_fields)

lemma ex_other_in_range: "year_in_range ex_ref 10 ex_other"
  using year_in_range_exact[of ex_ref 2000 10 ex_other 2000]
  by (simp add: year_value_def ex_ref_fields ex_other_fields)

lemmas ex_eval = candidates_def tempo_ok_def key_ok_def in_plain_band_def
      bpm_min_def bpm_max_def full_key_def full_key_of_def key_map_def
      mode_name_def default_config_def ex_ref_fields ex_track_fields ex_other_fields
      ex_year_in_range ex_other_in_range

lemma ex_rank_find: "List.find (\<lambda>t. track_id t = ''ref'') ex_rank_cat = Some ex_ref"
  by (simp add: ex_rank_cat_def ex_ref_fields ex_track_fields)

lemma ex_rank_candidates:
  "candidates ex_rank_cat ''ref'' ex_ref default_config
     = [ex_track ''far'' 120 2010, ex_track ''near'' 120 2000]"
  by (simp add: ex_rank_cat_def ex_eval)

lemma ex_rank_years:
  "year_min [ex_track ''far'' 120 2010, ex_track ''near'' 120 2000] = Some 2000"
  "year_range [ex_track ''far'' 120 2010, ex_track ''near'' 120 2000] = Some 10"
  by (simp_all add: year_range_def year_min_def year_max_def series_min_def series_max_def
      present_def List.map_filter_def year_col_def year_value_def nan_sub_def ex_track_fields)

lemma ex_rank_normalized:
  "year_normalized [ex_track ''far'' 120 2010, ex_track ''near'' 120 2000]
      (ex_track ''far'' 120 2010) = Some 1"
  "year_normalized [ex_track ''far'' 120 2010, ex_track ''near'' 120 2000]
      (ex_track ''near'' 120 2000) = Some 0"
  "year_normalized [ex_track ''far'' 120 2010, ex_track ''near'' 120 2000] ex_ref = Some 0"
  by (simp_all add: year_normalized_def ex_rank_years gt0_def year_col_def year_value_def
      ex_track_fields ex_ref_fields)

lemma ex_rank_distance:
  "distance [ex_track ''far'' 120 2010, ex_track ''near'' 120 2000] ex_ref
      (ex_track ''far'' 120 2010) = Some 1"
  "distance [ex_track ''far'' 120 2010, ex_track ''near'' 120 2000] ex_ref
      (ex_track ''near'' 120 2000) = Some 0"
  by (simp_all add: distance_def sum_squared_diffs_def ref_year_normalized_def
      ex_rank_normalized nan_sub_def audio_features_def ex_track_fields ex_ref_fields)

lemma ex_rank_scored:
  "calculate_similarity [ex_track ''far'' 120 2010, ex_track ''near'' 120 2000] ex_ref
     = [(ex_track ''far'' 120 2010, Some 0), (ex_track ''near'' 120 2000, Some 1)]"
  by (simp add: calculate_similarity_def similarity_def max_distance_def ex_rank_distance
      series_max_def present_def List.map_filter_def gt0_def)

lemma ex_rank_result:
  "find_compatible_songs ex_rank_cat ''ref'' default_config
     (Return [(ex_track ''near'' 120 2000, Some 1), (ex_track ''far'' 120 2010, Some 0)])"
  by (rule find_compatible_songs_eval[OF ex_rank_find ex_default_raises ex_rank_candidates
        ex_rank_scored])
     (simp add: sort_values_desc_def add_mset_commute)



lemma ex_year_find: "List.find (\<lambda>t. track_id t = ''ref'') ex_year_cat = Some ex_ref"
  by (simp add: ex_year_cat_def ex_ref_fields ex_track_fields)

lemma ex_year_candidates:
  "candidates ex_year_cat ''ref'' ex_ref default_config = [ex_track ''edge'' 120 1990]"
  by (simp add: ex_year_cat_def ex_eval)

lemma ex_year_scored:
  "calculate_similarity [ex_track ''edge'' 120 1990] ex_ref = [(ex_track ''edge'' 120 1990, Some 1)]"
  using all_identical_similarity[of "[ex_track ''edge'' 120 1990]" ex_ref] sole_year_min_max
  by (simp add: same_features_def ex_track_fields ex_ref_fields)

lemma ex_year_result:
  "find_compatible_songs ex_year_cat ''ref'' default_config
     (Return [(ex_track ''edge'' 120 1990, Some 1)])"
  by (rule find_compatible_songs_eval[OF ex_year_find ex_default_raises ex_year_candidates
        ex_year_scored])
     (simp add: sort_values_desc_def)

lemma ex_genre_find: "List.find (\<lambda>t. track_id t = ''ref'') ex_genre_cat = Some ex_ref"
  by (simp add: ex_genre_cat_def ex_ref_fields ex_track_fields ex_other_fields)

lemma ex_genre_candidates:
  "candidates ex_genre_cat ''ref'' ex_ref (ex_cfg\<lparr>match_genre := True\<rparr>) = [ex_track ''pop'' 120 2000]"
  "candidates ex_genre_cat ''ref'' ex_ref (ex_cfg\<lparr>match_genre := False\<rparr>)
     = [ex_other, ex_track ''pop'' 120 2000]"
  "candidates ex_genre_cat ''ref'' ex_ref (ex_cfg\<lparr>match_subgenre := True\<rparr>)
     = [ex_track ''pop'' 120 2000]"
  "candidates ex_genre_cat ''ref'' ex_ref (ex_cfg\<lparr>match_subgenre := False\<rparr>)
     = [ex_other, ex_track ''pop'' 120 2000]"
  "candidates ex_genre_cat ''ref'' ex_ref (ex_cfg\<lparr>match_key := True\<rparr>)
     = [ex_track ''pop'' 120 2000]"
  "candidates ex_genre_cat ''ref'' ex_ref (ex_cfg\<lparr>match_key := False\<rparr>)
     = [ex_other, ex_track ''pop'' 120 2000]"
  by (simp_all add: ex_genre_cat_def ex_cfg_def ex_eval)

lemma ex_cfg_raises:
  "raises ex_ref (ex_cfg\<lparr>match_genre := b\<rparr>) = None"
  "raises ex_ref (ex_cfg\<lparr>match_subgenre := b\<rparr>) = None"
  "raises ex_ref (ex_cfg\<lparr>match_key := b\<rparr>) = None"
  by (simp_all add: raises_def ex_cfg_def default_config_def float_conv_overflows_def
      year_bounds_def int32_range_def ex_ref_fields)

lemma ex_genre_scored:
  "calculate_similarity [ex_track ''pop'' 120 2000] ex_ref = [(ex_track ''pop'' 120 2000, Some 1)]"
  "calculate_similarity [ex_other, ex_track ''pop'' 120 2000] ex_ref
     = [(ex_other, Some 1), (ex_track ''pop'' 120 2000, Some 1)]"
proof -
  have "year_min [ex_other, ex_track ''pop'' 120 2000] = year_max [ex_other, ex_track ''pop'' 120 2000]"
    by (simp add: year_min_def year_max_def series_min_def series_max_def present_def
        List.map_filter_def year_col_def year_value_def ex_track_fields ex_other_fields)
  from all_identical_similarity[OF this, of ex_ref]
  show "calculate_similarity [ex_other, ex_track ''pop'' 120 2000] ex_ref
     = [(ex_other, Some 1), (ex_track ''pop'' 120 2000, Some 1)]"
    by (simp add: same_features_def ex_track_fields ex_ref_fields ex_other_fields)
  from all_identical_similarity[OF sole_year_min_max, of "ex_track ''pop'' 120 2000" ex_ref]
  show "calculate_similarity [ex_track ''pop'' 120 2000] ex_ref = [(ex_track ''pop'' 120 2000, Some 1)]"
    by (simp add: same_features_def ex_track_fields ex_ref_fields)
qed

lemma ex_genre_results:
  "find_compatible_songs ex_genre_cat ''ref'' (ex_cfg\<lparr>match_genre := True\<rparr>)
     (Return [(ex_track ''pop'' 120 2000, Some 1)])"
  "find_compatible_songs ex_genre_cat ''ref'' (ex_cfg\<lparr>match_genre := False\<rparr>)
     (Return [(ex_other, Some 1), (ex_track ''pop'' 120 2000, Some 1)])"
  "find_compatible_songs ex_genre_cat ''ref'' (ex_cfg\<lparr>match_subgenre := True\<rparr>)
     (Return [(ex_track ''pop'' 120 2000, Some 1)])"
  "find_compatible_songs ex_genre_cat ''ref'' (ex_cfg\<lparr>match_subgenre := False\<rparr>)
     (Return [(ex_other, Some 1), (ex_track ''pop'' 120 2000, Some 1)])"
  "find_compatible_songs ex_genre_cat ''ref'' (ex_cfg\<lparr>match_key := True\<rparr>)
     (Return [(ex_track ''pop'' 120 2000, Some 1)])"
  "find_compatible_songs ex_genre_cat ''ref'' (ex_cfg\<lparr>match_key := False\<rparr>)
     (Return [(ex_other, Some 1), (ex_track ''pop'' 120 2000, Some 1)])"
  by (rule find_compatible_songs_eval[OF ex_genre_find ex_cfg_raises(1) ex_genre_candidates(1) ex_genre_scored(1)],
      simp add: sort_values_desc_def,
      rule find_compatible_songs_eval[OF ex_genre_find ex_cfg_raises(1) ex_genre_candidates(2) ex_genre_scored(2)],
      simp add: sort_values_desc_def,
      rule find_compatible_songs_eval[OF ex_genre_find ex_cfg_raises(2) ex_genre_candidates(3) ex_genre_scored(1)],
      simp add: sort_values_desc_def,
      rule find_compatible_songs_eval[OF ex_genre_find ex_cfg_raises(2) ex_genre_candidates(4) ex_genre_scored(2)],
      simp add: sort_values_desc_def,
      rule find_compatible_songs_eval[OF ex_genre_find ex_cfg_raises(3) ex_genre_candidates(5) ex_genre_scored(1)],
      simp add: sort_values_desc_def,
      rule find_compatible_songs_eval[OF ex_genre_find ex_cfg_raises(3) ex_genre_candidates(6) ex_genre_scored(2)],
      simp add: sort_values_desc_def)




text \<open>
  On an int32 year the bounds wrap: with tolerance 2147481648 the upper bound of the
  reference year 2000 is \<open>- 2^31\<close> and no calendar year passes; from \<open>2^31\<close> on line 269
  raises.
\<close>

lemma year_bounds_wrap_example:
  "year_bounds ex_ref 2147481648 = Inr (Some (- 2147479648, - 2147483648))"
  "\<not> year_in_range ex_ref 2147481648 (ex_track ''a'' 120 1990)"
  "year_bounds ex_ref 2147483648 = Inl OverflowError"
  by (simp_all add: year_in_range_def year_bounds_def int32_range_def wrap32_def year_mask_def
      year_value_def ex_ref_fields ex_track_fields)

section \<open>The claims\<close>

subsection \<open>Tempo bands\<close>

text \<open>
  Claim C7, as amended. For a reference tempo above 0 and a tolerance that is not
  negative, the three inclusive bands of \<open>_filter_by_bpm\<close> are pairwise disjoint exactly
  when the reference tempo exceeds three times the tolerance. (As stated, for every such
  tempo and tolerance, the claim fails: see the counterexample below.)
\<close>

theorem tempo_bands_disjoint_iff:
  "0 < tempo r \<Longrightarrow> 0 \<le> tol \<Longrightarrow>
   ((\<forall>x. \<not> (in_plain_band r tol x \<and> in_double_band r tol x)) \<and>
    (\<forall>x. \<not> (in_plain_band r tol x \<and> in_half_band r tol x)) \<and>
    (\<forall>x. \<not> (in_double_band r tol x \<and> in_half_band r tol x)))
   \<longleftrightarrow> tempo r > 3 * real_of_int tol"
  unfolding in_plain_band_def in_double_band_def in_half_band_def bpm_min_def bpm_max_def
    double_min_def double_max_def half_min_def half_max_def
proof (rule iffI)
  assume pos: "0 < tempo r" "0 \<le> tol"
  assume dis: "(\<forall>x. \<not> ((tempo r - real_of_int tol \<le> x \<and> x \<le> tempo r + real_of_int tol) \<and>
            2 * (tempo r - real_of_int tol) \<le> x \<and> x \<le> 2 * (tempo r + real_of_int tol))) \<and>
    (\<forall>x. \<not> ((tempo r - real_of_int tol \<le> x \<and> x \<le> tempo r + real_of_int tol) \<and>
            (tempo r - real_of_int tol) / 2 \<le> x \<and> x \<le> (tempo r + real_of_int tol) / 2)) \<and>
    (\<forall>x. \<not> ((2 * (tempo r - real_of_int tol) \<le> x \<and> x \<le> 2 * (tempo r + real_of_int tol)) \<and>
            (tempo r - real_of_int tol) / 2 \<le> x \<and> x \<le> (tempo r + real_of_int tol) / 2))"
  show "3 * real_of_int tol < tempo r"
  proof (rule ccontr)
    assume "\<not> 3 * real_of_int tol < tempo r"
    moreover from dis have "\<not> ((tempo r - real_of_int tol \<le> tempo r + real_of_int tol
        \<and> tempo r + real_of_int tol \<le> tempo r + real_of_int tol) \<and>
        2 * (tempo r - real_of_int tol) \<le> tempo r + real_of_int tol
        \<and> tempo r + real_of_int tol \<le> 2 * (tempo r + real_of_int tol))"
      by blast
    ultimately show False using pos by simp
  qed
next
  assume "0 < tempo r" "0 \<le> tol" "3 * real_of_int tol < tempo r"
  then show "(\<forall>x. \<not> ((tempo r - real_of_int tol \<le> x \<and> x \<le> tempo r + real_of_int tol) \<and>
            2 * (tempo r - real_of_int tol) \<le> x \<and> x \<le> 2 * (tempo r + real_of_int tol))) \<and>
    (\<forall>x. \<not> ((tempo r - real_of_int tol \<le> x \<and> x \<le> tempo r + real_of_int tol) \<and>
            (tempo r - real_of_int tol) / 2 \<le> x \<and> x \<le> (tempo r + real_of_int tol) / 2)) \<and>
    (\<forall>x. \<not> ((2 * (tempo r - real_of_int tol) \<le> x \<and> x \<le> 2 * (tempo r + real_of_int tol)) \<and>
            (tempo r - real_of_int tol) / 2 \<le> x \<and> x \<le> (tempo r + real_of_int tol) / 2))"
    by auto
qed

theorem tempo_bands_disjoint_iff_witness:
  "0 < tempo ex_ref \<and> (0::int) \<le> 5 \<and> tempo ex_ref > 3 * real_of_int 5 \<and>
   \<not> (in_plain_band ex_ref 5 125 \<and> in_double_band ex_ref 5 125) \<and>
   \<not> (in_plain_band ex_ref 5 115 \<and> in_half_band ex_ref 5 115) \<and>
   \<not> (in_double_band ex_ref 5 230 \<and> in_half_band ex_ref 5 230)"
proof -
  have h: "0 < tempo ex_ref" "(0::int) \<le> 5" "tempo ex_ref > 3 * real_of_int 5"
    by (simp_all add: ex_ref_def)
  from tempo_bands_disjoint_iff [OF h(1,2)] h show ?thesis by blast
qed

text \<open>
  Reference tempo 120 and tolerance 50 (the largest the dashboard's slider offers): the
  plain band is \<open>[70, 170]\<close>, the doubled band \<open>[140, 340]\<close>, and tempo 150 lies in both.
\<close>

theorem tempo_bands_overlap_counterexample:
  "0 < tempo ex_ref \<and> (0::int) \<le> 50 \<and>
   in_plain_band ex_ref 50 150 \<and> in_double_band ex_ref 50 150"
  by (simp add: in_plain_band_def in_double_band_def bpm_min_def bpm_max_def double_min_def
      double_max_def ex_ref_def)

subsection \<open>Relative key\<close>

text \<open>
  Claim C5. On pitch classes 0 to 11, the relative key of \<open>(p, major)\<close> is
  \<open>((p + 9) mod 12, minor)\<close> and that of \<open>(p, minor)\<close> is \<open>((p + 3) mod 12, major)\<close>; the
  mode flips and applying the mapping twice gives the original key back. C major (0)
  maps to A minor (9) and A minor back to C major. The last conjunct ties
  \<open>relative_key\<close> to the code: for a reference with a mode, its label is the one
  \<open>_filter_by_key\<close> appends to \<open>allowed_keys\<close>.
\<close>

theorem relative_key_involution:
  "0 \<le> p \<Longrightarrow> p < 12 \<Longrightarrow>
     relative_key (p, 1) = ((p + 9) mod 12, 0) \<and>
     relative_key (p, 0) = ((p + 3) mod 12, 1) \<and>
     relative_key (relative_key (p, 1)) = (p, 1) \<and>
     relative_key (relative_key (p, 0)) = (p, 0) \<and>
     relative_key (0, 1) = (9, 0) \<and> relative_key (9, 0) = (0, 1) \<and>
     (mode r = Some m \<longrightarrow>
        allowed_keys r True = Inr [full_key r, full_key_of (relative_key (key r, m))])"
  by (simp add: relative_key_def mod_add_left_eq allowed_keys_relative)

theorem relative_key_involution_witness:
  "(0::int) \<le> 7 \<and> (7::int) < 12 \<and> mode ex_ref = Some 1 \<and>
     relative_key (7, 1) = (4, 0) \<and> relative_key (4, 0) = (7, 1) \<and>
     relative_key (relative_key (7, 1)) = (7, 1) \<and>
     allowed_keys ex_ref True = Inr [Some ''C Major'', Some ''A Minor'']"
  using relative_key_involution [of 7 ex_ref 1]
  by (simp add: relative_key_def full_key_def full_key_of_def key_map_def mode_name_def
      ex_ref_fields)

subsection \<open>Year filter\<close>

text \<open>
  Claim C9. The bounds of the year mask are inclusive: for a tolerance that is not
  negative and calendar years, a row whose year is exactly
  \<open>ref_year - year_tolerance\<close> satisfies the mask and one whose year is
  \<open>ref_year - year_tolerance - 1\<close> does not. The mask is applied for every
  configuration: lines 268 to 271 keep exactly the rows of the frame that satisfy it,
  and every row of a returned frame satisfies it.
\<close>

theorem year_filter_boundary:
  "(0 \<le> tol \<and> year_value (year r) = Some y \<and> calendar_year y \<longrightarrow>
      (year_value (year t) = Some (y - tol) \<and> calendar_year (y - tol)
         \<longrightarrow> year_in_range r tol t) \<and>
      (year_value (year t) = Some (y - tol - 1) \<and> calendar_year (y - tol - 1)
         \<longrightarrow> \<not> year_in_range r tol t))
   \<and> (year_filter df r tol = Inr df' \<longrightarrow>
        (\<forall>c. c \<in> set df' \<longleftrightarrow> c \<in> set df \<and> year_in_range r tol c))
   \<and> (find_compatible_songs cat rid cfg (Return res) \<and>
       List.find (\<lambda>t. track_id t = rid) cat = Some r' \<longrightarrow>
        (\<forall>p\<in>set res. year_in_range r' (year_tolerance cfg) (fst p)))"
proof (intro conjI impI allI ballI)
  assume a: "0 \<le> tol \<and> year_value (year r) = Some y \<and> calendar_year y"
    and b: "year_value (year t) = Some (y - tol) \<and> calendar_year (y - tol)"
  from a b have n: "- (2 ^ 31) \<le> y - tol" "y + tol < 2 ^ 31"
    by (simp_all add: calendar_year_def)
  from a b show "year_in_range r tol t"
    by (simp add: year_in_range_exact[OF _ n, of r t "y - tol"])
next
  assume a: "0 \<le> tol \<and> year_value (year r) = Some y \<and> calendar_year y"
    and b: "year_value (year t) = Some (y - tol - 1) \<and> calendar_year (y - tol - 1)"
  from a b have n: "- (2 ^ 31) \<le> y - tol" "y + tol < 2 ^ 31"
    by (simp_all add: calendar_year_def)
  from a b show "\<not> year_in_range r tol t"
    by (simp add: year_in_range_exact[OF _ n, of r t "y - tol - 1"])
next
  fix c
  assume "year_filter df r tol = Inr df'"
  then show "c \<in> set df' \<longleftrightarrow> c \<in> set df \<and> year_in_range r tol c"
    by (auto simp: year_filter_eq split: sum.splits)
next
  fix p
  assume a: "find_compatible_songs cat rid cfg (Return res) \<and>
       List.find (\<lambda>t. track_id t = rid) cat = Some r'" and p: "p \<in> set res"
  with result_tracks[of cat rid cfg res] have "fst ` set res = set (candidates cat rid r' cfg)"
    by auto
  with p have "fst p \<in> set (candidates cat rid r' cfg)" by blast
  then show "year_in_range r' (year_tolerance cfg) (fst p)" by (simp add: candidates_set)
qed

theorem year_filter_boundary_witness:
  "(0::int) \<le> 10 \<and> year_value (year ex_ref) = Some 2000 \<and> calendar_year 2000
   \<and> year_value (year (ex_track ''edge'' 120 1990)) = Some (2000 - 10)
   \<and> calendar_year (2000 - 10)
   \<and> year_in_range ex_ref 10 (ex_track ''edge'' 120 1990)
   \<and> year_value (year (ex_track ''old'' 120 1989)) = Some (2000 - 10 - 1)
   \<and> calendar_year (2000 - 10 - 1)
   \<and> \<not> year_in_range ex_ref 10 (ex_track ''old'' 120 1989)
   \<and> year_filter [ex_track ''old'' 120 1989, ex_track ''edge'' 120 1990] ex_ref 10
       = Inr [ex_track ''edge'' 120 1990]
   \<and> find_compatible_songs ex_year_cat ''ref'' default_config
        (Return [(ex_track ''edge'' 120 1990, Some 1)])
   \<and> List.find (\<lambda>t. track_id t = ''ref'') ex_year_cat = Some ex_ref"
proof -
  have f: "year_filter [ex_track ''old'' 120 1989, ex_track ''edge'' 120 1990] ex_ref 10
       = Inr [ex_track ''edge'' 120 1990]"
    by (simp add: year_filter_def year_bounds_def int32_range_def wrap32_def year_mask_def
        year_value_def ex_ref_fields ex_track_fields)
  have y: "year_value (year ex_ref) = Some 2000" "calendar_year 2000"
    "year_value (year (ex_track ''edge'' 120 1990)) = Some (2000 - 10)" "calendar_year (2000 - 10)"
    "year_value (year (ex_track ''old'' 120 1989)) = Some (2000 - 10 - 1)"
    "calendar_year (2000 - 10 - 1)"
    by (simp_all add: year_value_def calendar_year_def ex_ref_fields ex_track_fields)
  from year_filter_boundary [of 10 ex_ref 2000 "ex_track ''edge'' 120 1990"
      "[ex_track ''old'' 120 1989, ex_track ''edge'' 120 1990]" "[ex_track ''edge'' 120 1990]"
      ex_year_cat "''ref''" default_config "[(ex_track ''edge'' 120 1990, Some 1)]" ex_ref]
    year_filter_boundary [of 10 ex_ref 2000 "ex_track ''old'' 120 1989"
      "[ex_track ''old'' 120 1989, ex_track ''edge'' 120 1990]" "[ex_track ''edge'' 120 1990]"
      ex_year_cat "''ref''" default_config "[(ex_track ''edge'' 120 1990, Some 1)]" ex_ref]
    f y ex_year_result ex_year_find
  show ?thesis by simp
qed

subsection \<open>Similarity\<close>

text \<open>
  Claim C6. In \<open>_calculate_similarity\<close>, if the maximum distance over the candidates is
  0 then every candidate's similarity is exactly 1; if the candidates' minimum and
  maximum year coincide then every normalised year, the reference's too, is 0; a sole
  candidate that agrees with the reference on the seven audio features and the year has
  maximum distance 0 and similarity 1.
\<close>

theorem degenerate_normalization:
  "(max_distance df r = Some 0 \<longrightarrow> calculate_similarity df r = map (\<lambda>t. (t, Some 1)) df)
   \<and> (year_min df = year_max df \<longrightarrow>
        year_normalized df t = Some 0 \<and> ref_year_normalized df r = Some 0)
   \<and> (danceability c = danceability r \<and> energy c = energy r \<and> valence c = valence r \<and>
       acousticness c = acousticness r \<and> instrumentalness c = instrumentalness r \<and>
       speechiness c = speechiness r \<and> liveness c = liveness r \<and> year c = year r \<longrightarrow>
        max_distance [c] r = Some 0 \<and> calculate_similarity [c] r = [(c, Some 1)])"
proof (intro conjI impI)
  assume "max_distance df r = Some 0"
  then have "\<not> gt0 (max_distance df r)" by (simp add: gt0_def)
  then show "calculate_similarity df r = map (\<lambda>t. (t, Some 1)) df"
    by (rule similarity_degenerate)
next
  assume "year_min df = year_max df"
  then show "year_normalized df t = Some 0" by (rule year_normalized_degenerate)
next
  assume "year_min df = year_max df"
  then show "ref_year_normalized df r = Some 0"
    unfolding ref_year_normalized_def by (rule year_normalized_degenerate)
next
  assume "danceability c = danceability r \<and> energy c = energy r \<and> valence c = valence r \<and>
       acousticness c = acousticness r \<and> instrumentalness c = instrumentalness r \<and>
       speechiness c = speechiness r \<and> liveness c = liveness r \<and> year c = year r"
  then have sf: "same_features c r" by (simp add: same_features_def)
  have "distance [c] r c = Some 0" using sole_year_min_max sf by (rule distance_identical)
  then show "max_distance [c] r = Some 0"
    by (simp add: max_distance_def series_max_def present_def List.map_filter_def)
  from sf show "calculate_similarity [c] r = [(c, Some 1)]"
    using all_identical_similarity[of "[c]" r] sole_year_min_max by simp
qed

theorem degenerate_normalization_witness:
  "max_distance [ex_track ''a'' 121 2000, ex_track ''b'' 119 2000] ex_ref = Some 0
   \<and> calculate_similarity [ex_track ''a'' 121 2000, ex_track ''b'' 119 2000] ex_ref
       = [(ex_track ''a'' 121 2000, Some 1), (ex_track ''b'' 119 2000, Some 1)]
   \<and> year_min [ex_track ''a'' 121 2000, ex_track ''b'' 119 2000]
       = year_max [ex_track ''a'' 121 2000, ex_track ''b'' 119 2000]
   \<and> year_normalized [ex_track ''a'' 121 2000, ex_track ''b'' 119 2000] (ex_track ''a'' 121 2000)
       = Some 0
   \<and> ref_year_normalized [ex_track ''a'' 121 2000, ex_track ''b'' 119 2000] ex_ref = Some 0
   \<and> year (ex_track ''a'' 121 2000) = year ex_ref
   \<and> calculate_similarity [ex_track ''a'' 121 2000] ex_ref = [(ex_track ''a'' 121 2000, Some 1)]"
proof -
  let ?a = "ex_track ''a'' 121 2000" and ?b = "ex_track ''b'' 119 2000"
  have y: "year_min [?a, ?b] = year_max [?a, ?b]"
    by (simp add: year_min_def year_max_def series_min_def series_max_def present_def
        List.map_filter_def year_col_def year_value_def ex_track_fields)
  have sf: "same_features ?a ex_ref" "same_features ?b ex_ref"
    by (simp_all add: same_features_def ex_track_fields ex_ref_fields)
  have "distance [?a, ?b] ex_ref ?a = Some 0" "distance [?a, ?b] ex_ref ?b = Some 0"
    using y sf by (auto intro: distance_identical)
  then have m: "max_distance [?a, ?b] ex_ref = Some 0"
    by (simp add: max_distance_def series_max_def present_def List.map_filter_def)
  have f: "danceability ?a = danceability ex_ref \<and> energy ?a = energy ex_ref \<and>
       valence ?a = valence ex_ref \<and> acousticness ?a = acousticness ex_ref \<and>
       instrumentalness ?a = instrumentalness ex_ref \<and> speechiness ?a = speechiness ex_ref \<and>
       liveness ?a = liveness ex_ref \<and> year ?a = year ex_ref"
    by (simp add: ex_track_fields ex_ref_fields)
  from degenerate_normalization [of "[?a, ?b]" ex_ref ?a ?a] m y f
  show ?thesis by simp
qed

subsection \<open>The query\<close>

text \<open>
  Claim C1. The row whose \<open>track_id\<close> equals the reference id never appears in a frame
  returned by \<open>find_compatible_songs\<close>, for every catalog, reference id and
  configuration.
\<close>

theorem reference_never_in_result:
  "find_compatible_songs cat rid cfg (Return res) \<Longrightarrow> \<forall>p\<in>set res. track_id (fst p) \<noteq> rid"
proof
  fix p assume a: "find_compatible_songs cat rid cfg (Return res)" and p: "p \<in> set res"
  from result_tracks[OF a] obtain r where "fst ` set res = set (candidates cat rid r cfg)"
    by blast
  with p have "fst p \<in> set (candidates cat rid r cfg)" by blast
  then show "track_id (fst p) \<noteq> rid" by (simp add: candidates_set)
qed

theorem reference_never_in_result_witness:
  "find_compatible_songs ex_rank_cat ''ref'' default_config
     (Return [(ex_track ''near'' 120 2000, Some 1), (ex_track ''far'' 120 2010, Some 0)])
   \<and> track_id (ex_track ''near'' 120 2000) \<noteq> ''ref''
   \<and> track_id (ex_track ''far'' 120 2010) \<noteq> ''ref''"
  using reference_never_in_result [OF ex_rank_result] ex_rank_result by simp




text \<open>
  Claim C10. Enabling a filter never adds rows: the track ids returned with
  \<open>match_genre\<close> enabled are among those returned with it disabled, all other fields
  equal; likewise for \<open>match_subgenre\<close> and for \<open>match_key\<close>.
\<close>

theorem enabling_filter_never_adds:
  "(find_compatible_songs cat rid (cfg\<lparr>match_genre := True\<rparr>) (Return res1) \<and>
    find_compatible_songs cat rid (cfg\<lparr>match_genre := False\<rparr>) (Return res2) \<longrightarrow>
      (track_id \<circ> fst) ` set res1 \<subseteq> (track_id \<circ> fst) ` set res2)
   \<and> (find_compatible_songs cat rid (cfg\<lparr>match_subgenre := True\<rparr>) (Return res1) \<and>
    find_compatible_songs cat rid (cfg\<lparr>match_subgenre := False\<rparr>) (Return res2) \<longrightarrow>
      (track_id \<circ> fst) ` set res1 \<subseteq> (track_id \<circ> fst) ` set res2)
   \<and> (find_compatible_songs cat rid (cfg\<lparr>match_key := True\<rparr>) (Return res1) \<and>
    find_compatible_songs cat rid (cfg\<lparr>match_key := False\<rparr>) (Return res2) \<longrightarrow>
      (track_id \<circ> fst) ` set res1 \<subseteq> (track_id \<circ> fst) ` set res2)"
proof (intro conjI impI)
  assume "find_compatible_songs cat rid (cfg\<lparr>match_genre := True\<rparr>) (Return res1) \<and>
    find_compatible_songs cat rid (cfg\<lparr>match_genre := False\<rparr>) (Return res2)"
  then have a: "find_compatible_songs cat rid (cfg\<lparr>match_genre := True\<rparr>) (Return res1)"
    and b: "find_compatible_songs cat rid (cfg\<lparr>match_genre := False\<rparr>) (Return res2)" by simp_all
  show "(track_id \<circ> fst) ` set res1 \<subseteq> (track_id \<circ> fst) ` set res2"
    by (rule result_ids_mono[OF a b], rule candidates_mono)
       (simp_all add: tempo_ok_def key_ok_def)
next
  assume "find_compatible_songs cat rid (cfg\<lparr>match_subgenre := True\<rparr>) (Return res1) \<and>
    find_compatible_songs cat rid (cfg\<lparr>match_subgenre := False\<rparr>) (Return res2)"
  then have a: "find_compatible_songs cat rid (cfg\<lparr>match_subgenre := True\<rparr>) (Return res1)"
    and b: "find_compatible_songs cat rid (cfg\<lparr>match_subgenre := False\<rparr>) (Return res2)" by simp_all
  show "(track_id \<circ> fst) ` set res1 \<subseteq> (track_id \<circ> fst) ` set res2"
    by (rule result_ids_mono[OF a b], rule candidates_mono)
       (simp_all add: tempo_ok_def key_ok_def)
next
  assume "find_compatible_songs cat rid (cfg\<lparr>match_key := True\<rparr>) (Return res1) \<and>
    find_compatible_songs cat rid (cfg\<lparr>match_key := False\<rparr>) (Return res2)"
  then have a: "find_compatible_songs cat rid (cfg\<lparr>match_key := True\<rparr>) (Return res1)"
    and b: "find_compatible_songs cat rid (cfg\<lparr>match_key := False\<rparr>) (Return res2)" by simp_all
  show "(track_id \<circ> fst) ` set res1 \<subseteq> (track_id \<circ> fst) ` set res2"
    by (rule result_ids_mono[OF a b], rule candidates_mono)
       (simp_all add: tempo_ok_def key_ok_def)
qed

theorem enabling_filter_never_adds_witness:
  "find_compatible_songs ex_genre_cat ''ref'' (ex_cfg\<lparr>match_genre := True\<rparr>)
     (Return [(ex_track ''pop'' 120 2000, Some 1)])
   \<and> find_compatible_songs ex_genre_cat ''ref'' (ex_cfg\<lparr>match_genre := False\<rparr>)
     (Return [(ex_other, Some 1), (ex_track ''pop'' 120 2000, Some 1)])
   \<and> find_compatible_songs ex_genre_cat ''ref'' (ex_cfg\<lparr>match_subgenre := True\<rparr>)
     (Return [(ex_track ''pop'' 120 2000, Some 1)])
   \<and> find_compatible_songs ex_genre_cat ''ref'' (ex_cfg\<lparr>match_subgenre := False\<rparr>)
     (Return [(ex_other, Some 1), (ex_track ''pop'' 120 2000, Some 1)])
   \<and> find_compatible_songs ex_genre_cat ''ref'' (ex_cfg\<lparr>match_key := True\<rparr>)
     (Return [(ex_track ''pop'' 120 2000, Some 1)])
   \<and> find_compatible_songs ex_genre_cat ''ref'' (ex_cfg\<lparr>match_key := False\<rparr>)
     (Return [(ex_other, Some 1), (ex_track ''pop'' 120 2000, Some 1)])
   \<and> (track_id \<circ> fst) ` set [(ex_track ''pop'' 120 2000, Some (1::real))]
       \<subseteq> (track_id \<circ> fst) ` set [(ex_other, Some (1::real)), (ex_track ''pop'' 120 2000, Some 1)]"
  using enabling_filter_never_adds [of ex_genre_cat "''ref''" ex_cfg
      "[(ex_track ''pop'' 120 2000, Some 1)]"
      "[(ex_other, Some 1), (ex_track ''pop'' 120 2000, Some 1)]"]
    ex_genre_results
  by simp

end
